theory Spec2Isabelle
  imports Complex_Main "HOL-Library.Sublist"
begin

section \<open>Data model\<close>

text \<open>
  The program is a set of JavaScript modules (IIFE singletons) that share mutable
  objects. Entities are objects that the Grid, the EntityManager and the components
  all hold by reference, so the model keeps them in an explicit store: an entity
  reference is a natural number and \<open>ents\<close> maps a reference to the object's fields.
  Numbers that hold grid coordinates are integers; world coordinates and the cell
  size are rationals (the arithmetic of the source, without the rounding of doubles).
  A failed property access on \<open>undefined\<close> is the error value \<open>TypeError\<close>.
\<close>

type_synonym eid = nat

datatype js_error = TypeError

text \<open>The player component's movement state (PlayerComponent.init).\<close>

record player =
  direction :: string
  canMove :: bool
  isMoving :: bool
  targetX :: int
  targetY :: int

text \<open>
  An entity as EntityManager.createEntity builds it. \<open>tileComp\<close> is the \<open>type\<close>
  field of the component stored under \<open>components['tile']\<close>, when there is one;
  \<open>playerComp\<close> is the component stored under \<open>components['player']\<close>.
  \<open>zoneId\<close> is \<open>None\<close> for \<open>null\<close>. \<open>tags\<close> is always an array
  (\<open>config.tags || []\<close>), so the source's tests \<open>entity.tags && ...\<close> succeed.
\<close>

record entity =
  ident :: string
  etype :: string
  tags :: "string list"
  active :: bool
  position :: "rat \<times> rat"
  zIndex :: int
  gridX :: int
  gridY :: int
  layer :: nat
  zoneId :: "string option"
  tileComp :: "string option"
  playerComp :: "player option"

text \<open>A zone object of \<open>_zones\<close>: \<open>tiles\<close> is row-major, \<open>tiles[y][x]\<close>.\<close>

record zone =
  zone_id :: string
  width :: int
  height :: int
  tiles :: "string list list"
  entities :: "eid list"

text \<open>
  Events the Grid, the EntityManager and the components publish on the bus. In the
  model of these modules a published event is appended to a list; what subscribers
  do with it is not part of the publishing module (the repository subscribes
  nothing to \<open>zone:change\<close>, \<open>entity:move\<close>, \<open>entity:spawn\<close> or \<open>entity:destroy\<close>).
  The bus itself is modelled further down.
\<close>

datatype event =
  ZoneChange string
  | EntityMove eid "int \<times> int" "int \<times> int"
  | EntitySpawn eid
  | EntityDestroy eid
  | DialogOpen eid eid string
  | InteractionPickup eid eid "string option"
  | InteractionToggle eid eid bool
  | InteractionBasic eid eid

text \<open>
  The private state of the Grid module, with the entity store it writes through and
  the list of events it has published (oldest first). \<open>cells\<close> is
  \<open>_cells[zoneId][layer][x][y]\<close>; the two innermost levels are one map keyed by
  \<open>(x, y)\<close>, since the source only ever tests and creates them together.
\<close>

record grid =
  cellSize :: rat
  gwidth :: int
  gheight :: int
  zones :: "string \<rightharpoonup> zone"
  currentZone :: "string option"
  cells :: "string \<rightharpoonup> (nat \<rightharpoonup> (int \<times> int \<rightharpoonup> eid list))"
  ents :: "eid \<Rightarrow> entity"
  published :: "event list"

text \<open>
  The fields EntityManager.createEntity gives an entity whose config is empty, before
  the id and the zone are filled in.
\<close>

definition blank :: entity where
  "blank =
     \<lparr>ident = [], etype = [], tags = [], active = True, position = (0, 0), zIndex = 0,
      gridX = 0, gridY = 0, layer = 2, zoneId = None, tileComp = None, playerComp = None\<rparr>"

section \<open>Grid (js/core/grid.js, here src/unnamed/part\_002)\<close>

definition GROUND :: nat where "GROUND = 0"
definition OBJECT :: nat where "OBJECT = 1"
definition ACTOR :: nat where "ACTOR = 2"
definition UI :: nat where "UI = 3"

text \<open>The module's state when the script has loaded.\<close>

definition grid_initial :: "(eid \<Rightarrow> entity) \<Rightarrow> grid" where
  "grid_initial h =
     \<lparr>cellSize = 32, gwidth = 0, gheight = 0, zones = Map.empty, currentZone = None,
      cells = Map.empty, ents = h, published = []\<rparr>"

text \<open>\<open>init(config)\<close>: \<open>config.cellSize || 32\<close>; \<open>None\<close> is a config without the key.\<close>

definition init :: "rat option \<Rightarrow> grid \<Rightarrow> grid" where
  "init c g =
     g\<lparr>cellSize := (case c of None \<Rightarrow> 32 | Some s \<Rightarrow> if s = 0 then 32 else s)\<rparr>"

text \<open>JavaScript truthiness of a string-or-null value.\<close>

definition truthy :: "string option \<Rightarrow> bool" where
  "truthy v = (case v of None \<Rightarrow> False | Some s \<Rightarrow> s \<noteq> [])"

text \<open>
  \<open>createZone(zoneId, config)\<close>. \<open>ctiles\<close> is \<open>config.tiles || []\<close>; an empty
  matrix is filled with \<open>'empty'\<close>.
\<close>

definition createZone :: "string \<Rightarrow> int \<Rightarrow> int \<Rightarrow> string list list \<Rightarrow> grid \<Rightarrow> grid" where
  "createZone z w h ctiles g =
     (let ts = (if ctiles = [] then replicate (nat h) (replicate (nat w) ''empty'') else ctiles);
          Z = \<lparr>zone_id = z, width = w, height = h, tiles = ts, entities = []\<rparr>;
          g1 = g\<lparr>zones := (zones g)(z \<mapsto> Z),
                 cells := (cells g)(z \<mapsto> [GROUND \<mapsto> Map.empty, OBJECT \<mapsto> Map.empty,
                                              ACTOR \<mapsto> Map.empty, UI \<mapsto> Map.empty])\<rparr>
      in if \<not> truthy (currentZone g)
         then g1\<lparr>currentZone := Some z, gwidth := w, gheight := h\<rparr>
         else g1)"

definition setCurrentZone :: "string \<Rightarrow> grid \<Rightarrow> bool \<times> grid" where
  "setCurrentZone z g =
     (case zones g z of
        None \<Rightarrow> (False, g)
      | Some Z \<Rightarrow>
          (True, g\<lparr>currentZone := Some z, gwidth := width Z, gheight := height Z,
                   published := published g @ [ZoneChange z]\<rparr>))"

text \<open>
  \<open>_zones[zoneId]\<close> for a zone id that may be \<open>null\<close>. (JavaScript would look up
  the key \<open>"null"\<close>; a zone of that name is not considered. The callers in the
  repository always pass the zone id, so the default \<open>zoneId = _currentZone\<close> of the
  source's parameter lists is left to the caller.)
\<close>

definition getZone :: "grid \<Rightarrow> string option \<Rightarrow> zone option" where
  "getZone g zo = (case zo of None \<Rightarrow> None | Some z \<Rightarrow> zones g z)"

definition isValidPosition :: "grid \<Rightarrow> int \<Rightarrow> int \<Rightarrow> string option \<Rightarrow> bool" where
  "isValidPosition g x y zo =
     (case getZone g zo of
        None \<Rightarrow> False
      | Some Z \<Rightarrow> x \<ge> 0 \<and> y \<ge> 0 \<and> x < width Z \<and> y < height Z)"

definition gridToWorld :: "grid \<Rightarrow> int \<Rightarrow> int \<Rightarrow> rat \<times> rat" where
  "gridToWorld g gx gy =
     (of_int gx * cellSize g + cellSize g / 2, of_int gy * cellSize g + cellSize g / 2)"


text \<open>
  The tile matrix grown as registerEntity grows it: rows are pushed until row \<open>y\<close>
  exists, \<open>'empty'\<close> is pushed on row \<open>y\<close> until column \<open>x\<close> exists, then the tile
  is written.
\<close>

definition growTiles :: "string list list \<Rightarrow> nat \<Rightarrow> nat \<Rightarrow> string \<Rightarrow> string list list" where
  "growTiles ts x y t =
     (let ts1 = ts @ replicate (Suc y - length ts) [];
          row = ts1 ! y;
          row1 = row @ replicate (Suc x - length row) ''empty''
      in ts1[y := row1[x := t]])"

text \<open>The bucket \<open>_cells[z][l][x][y]\<close> read as a list (empty when any level is missing).\<close>

definition bucket :: "grid \<Rightarrow> string \<Rightarrow> nat \<Rightarrow> int \<times> int \<Rightarrow> eid list" where
  "bucket g z l xy =
     (case cells g z of
        None \<Rightarrow> []
      | Some cz \<Rightarrow>
          (case cz l of None \<Rightarrow> [] | Some lay \<Rightarrow> (case lay xy of None \<Rightarrow> [] | Some b \<Rightarrow> b)))"

definition registerEntity ::
  "eid \<Rightarrow> int \<Rightarrow> int \<Rightarrow> nat \<Rightarrow> string option \<Rightarrow> grid \<Rightarrow> js_error + (bool \<times> grid)" where
  "registerEntity e x y l zo g =
     (case zo of
        None \<Rightarrow> Inr (False, g)
      | Some z \<Rightarrow>
          (case zones g z of
             None \<Rightarrow> Inr (False, g)
           | Some Z \<Rightarrow>
               if \<not> isValidPosition g x y zo then Inr (False, g)
               else
                 (case cells g z of
                    None \<Rightarrow> Inl TypeError
                  | Some cz \<Rightarrow>
                      let lay = (case cz l of None \<Rightarrow> Map.empty | Some m \<Rightarrow> m);
                          b = (case lay (x, y) of None \<Rightarrow> [] | Some b0 \<Rightarrow> b0);
                          cz1 = cz(l \<mapsto> lay((x, y) \<mapsto> b @ [e]));
                          E = (ents g e)\<lparr>gridX := x, gridY := y, layer := l, zoneId := Some z,
                                position := (of_int x * cellSize g + cellSize g / 2,
                                             of_int y * cellSize g + cellSize g / 2)\<rparr>;
                          Z1 = (if e \<in> set (entities Z) then Z
                                else Z\<lparr>entities := entities Z @ [e]\<rparr>);
                          Z2 = (if l = GROUND \<and> truthy (tileComp E)
                                then Z1\<lparr>tiles := growTiles (tiles Z1) (nat x) (nat y)
                                                     (the (tileComp E))\<rparr>
                                else Z1)
                      in Inr (True, g\<lparr>cells := (cells g)(z \<mapsto> cz1),
                                      ents := (ents g)(e := E),
                                      zones := (zones g)(z \<mapsto> Z2)\<rparr>))))"

definition unregisterEntity :: "eid \<Rightarrow> grid \<Rightarrow> js_error + (bool \<times> grid)" where
  "unregisterEntity e g =
     (let E = ents g e in
      if \<not> truthy (zoneId E) then Inr (False, g)
      else
        (case getZone g (zoneId E) of
           None \<Rightarrow> Inr (False, g)
         | Some Z \<Rightarrow>
             (case cells g (the (zoneId E)) of
                None \<Rightarrow> Inl TypeError
              | Some cz \<Rightarrow>
                  let cz1 =
                        (case cz (layer E) of
                           None \<Rightarrow> cz
                         | Some lay \<Rightarrow>
                             (case lay (gridX E, gridY E) of
                                None \<Rightarrow> cz
                              | Some b \<Rightarrow> cz(layer E \<mapsto> lay((gridX E, gridY E) \<mapsto> remove1 e b))));
                      Z1 = Z\<lparr>entities := remove1 e (entities Z)\<rparr>
                  in Inr (True, g\<lparr>cells := (cells g)(the (zoneId E) \<mapsto> cz1),
                                  zones := (zones g)(the (zoneId E) \<mapsto> Z1)\<rparr>))))"

definition moveEntity :: "eid \<Rightarrow> int \<Rightarrow> int \<Rightarrow> grid \<Rightarrow> js_error + (bool \<times> grid)" where
  "moveEntity e newX newY g =
     (let E = ents g e in
      if \<not> isValidPosition g newX newY (zoneId E) then Inr (False, g)
      else
        (case cells g (the (zoneId E)) of
           None \<Rightarrow> Inl TypeError
         | Some cz \<Rightarrow>
             (case cz (layer E) of
                None \<Rightarrow> Inl TypeError
              | Some lay \<Rightarrow>
                  let lay1 = (case lay (gridX E, gridY E) of
                                None \<Rightarrow> lay
                              | Some b \<Rightarrow> lay((gridX E, gridY E) \<mapsto> remove1 e b));
                      b2 = (case lay1 (newX, newY) of None \<Rightarrow> [] | Some b0 \<Rightarrow> b0);
                      lay2 = lay1((newX, newY) \<mapsto> b2 @ [e]);
                      E1 = E\<lparr>gridX := newX, gridY := newY,
                             position := (of_int newX * cellSize g + cellSize g / 2,
                                          of_int newY * cellSize g + cellSize g / 2)\<rparr>
                  in Inr (True, g\<lparr>cells := (cells g)(the (zoneId E) \<mapsto> cz(layer E \<mapsto> lay2)),
                                  ents := (ents g)(e := E1),
                                  published := published g @
                                    [EntityMove e (gridX E, gridY E) (newX, newY)]\<rparr>))))"

text \<open>
  \<open>getEntitiesAt(x, y, layer, zoneId)\<close>; \<open>lo = None\<close> is the call without a
  layer, which walks the layers in the order of the LAYERS table.
\<close>

definition getEntitiesAt ::
  "grid \<Rightarrow> int \<Rightarrow> int \<Rightarrow> nat option \<Rightarrow> string option \<Rightarrow> js_error + eid list" where
  "getEntitiesAt g x y lo zo =
     (case zo of
        None \<Rightarrow> Inr []
      | Some z \<Rightarrow>
          (case zones g z of
             None \<Rightarrow> Inr []
           | Some Z \<Rightarrow>
               (case cells g z of
                  None \<Rightarrow> Inl TypeError
                | Some cz \<Rightarrow>
                    (case lo of
                       Some l \<Rightarrow> Inr (bucket g z l (x, y))
                     | None \<Rightarrow>
                         Inr (concat (map (\<lambda>l. bucket g z l (x, y)) [GROUND, OBJECT, ACTOR, UI]))))))"

text \<open>\<open>getTileAt\<close>: \<open>None\<close> is \<open>null\<close>; an empty tile id is falsy and reads as \<open>null\<close>.\<close>

definition getTileAt :: "grid \<Rightarrow> int \<Rightarrow> int \<Rightarrow> string option \<Rightarrow> string option" where
  "getTileAt g x y zo =
     (case getZone g zo of
        None \<Rightarrow> None
      | Some Z \<Rightarrow>
          if x < 0 \<or> y < 0 \<or> x \<ge> width Z \<or> y \<ge> height Z then None
          else if length (tiles Z) \<le> nat y then None
          else
            (let row = tiles Z ! nat y in
             if length row \<le> nat x then None
             else if row ! nat x = [] then None
             else Some (row ! nat x)))"

definition hasTagIn :: "grid \<Rightarrow> eid \<Rightarrow> string \<Rightarrow> bool" where
  "hasTagIn g e t = (t \<in> set (tags (ents g e)))"

definition isWalkable ::
  "grid \<Rightarrow> int \<Rightarrow> int \<Rightarrow> string list \<Rightarrow> string list \<Rightarrow> string option \<Rightarrow> js_error + bool" where
  "isWalkable g x y requiredTags excludedTags zo =
     (if \<not> isValidPosition g x y zo then Inr False
      else
        (case getTileAt g x y zo of
           None \<Rightarrow> Inr False
         | Some tileId \<Rightarrow>
             (case getEntitiesAt g x y (Some GROUND) zo of
                Inl err \<Rightarrow> Inl err
              | Inr tileEntities \<Rightarrow>
                  let tileEntity = (case tileEntities of [] \<Rightarrow> None | t # _ \<Rightarrow> Some t);
                      w0 = True;
                      w1 = (case tileEntity of
                              None \<Rightarrow> w0
                            | Some t \<Rightarrow>
                                let w = (if hasTagIn g t ''water'' \<or> tileId = ''water'' \<or>
                                            tileId = ''teleporter''
                                         then False else w0)
                                in if hasTagIn g t ''walkable'' then True else w);
                      w2 = (case tileEntity of
                              None \<Rightarrow> w1
                            | Some t \<Rightarrow>
                                if excludedTags \<noteq> [] \<and> list_ex (hasTagIn g t) excludedTags
                                then False else w1)
                  in (case getEntitiesAt g x y (Some OBJECT) zo of
                        Inl err \<Rightarrow> Inl err
                      | Inr objectEntities \<Rightarrow>
                          Inr (if list_ex (\<lambda>e. hasTagIn g e ''solid'') objectEntities
                               then False else w2)))))"

text \<open>
  The walkability policy as the specification words it, for comparison with
  \<open>isWalkable\<close>: not walkable out of bounds or without a tile id; otherwise walkable
  by default, overridden to false when the ground-layer tile entity carries
  \<open>water\<close> or the cell's tile id is \<open>water\<close> or \<open>teleporter\<close>, back to true when
  the tile entity carries \<open>walkable\<close>, then false for an excluded tag on the tile
  entity, then false for a solid entity on the OBJECT layer.
\<close>

definition isWalkable_spec ::
  "grid \<Rightarrow> int \<Rightarrow> int \<Rightarrow> string list \<Rightarrow> string list \<Rightarrow> string \<Rightarrow> bool" where
  "isWalkable_spec g x y requiredTags excludedTags z =
     (case getTileAt g x y (Some z) of
        None \<Rightarrow> False
      | Some tileId \<Rightarrow>
          let tileTags = (case bucket g z GROUND (x, y) of [] \<Rightarrow> [] | t # _ \<Rightarrow> tags (ents g t));
              w1 = (if ''water'' \<in> set tileTags \<or> tileId = ''water'' \<or> tileId = ''teleporter''
                    then False else True);
              w2 = (if ''walkable'' \<in> set tileTags then True else w1);
              w3 = (if list_ex (\<lambda>t. t \<in> set tileTags) excludedTags then False else w2)
          in if list_ex (\<lambda>e. ''solid'' \<in> set (tags (ents g e))) (bucket g z OBJECT (x, y))
             then False else w3)"

text \<open>
  Running an operation for its effect on the state. Each operation above throws, when
  it does, before its first write, so the state after a throw is the state before it.
\<close>

definition exec :: "(grid \<Rightarrow> js_error + (bool \<times> grid)) \<Rightarrow> grid \<Rightarrow> grid" where
  "exec f g = (case f g of Inl _ \<Rightarrow> g | Inr r \<Rightarrow> snd r)"

text \<open>The entity list of a zone, empty for a zone that does not exist.\<close>

definition entities_of :: "grid \<Rightarrow> string \<Rightarrow> eid list" where
  "entities_of g z = (case zones g z of None \<Rightarrow> [] | Some Z \<Rightarrow> entities Z)"

text \<open>An entity that no bucket and no zone list holds.\<close>

definition unplaced :: "grid \<Rightarrow> eid \<Rightarrow> bool" where
  "unplaced g e =
     ((\<forall>z l k. e \<notin> set (bucket g z l k)) \<and> (\<forall>z. e \<notin> set (entities_of g z)))"

text \<open>
  The states the Grid reaches from its initial state, over any entity store, when
  \<open>registerEntity\<close> is only called for an entity that is not on the grid (new, or
  unregistered since). Entities that are not on the grid may be created or rewritten
  at any time (EntityManager.createEntity fills \<open>zoneId\<close>, \<open>gridX\<close>, \<open>gridY\<close> and
  \<open>layer\<close> without registering the entity).
\<close>

inductive reach :: "grid \<Rightarrow> bool" where
  reach_initial: "reach (grid_initial h)"
| reach_init: "reach g \<Longrightarrow> reach (init c g)"
| reach_createZone: "reach g \<Longrightarrow> reach (createZone z w h ts g)"
| reach_setCurrentZone: "reach g \<Longrightarrow> reach (snd (setCurrentZone z g))"
| reach_write: "reach g \<Longrightarrow> unplaced g e \<Longrightarrow> reach (g\<lparr>ents := (ents g)(e := E)\<rparr>)"
| reach_register:
    "reach g \<Longrightarrow> unplaced g e \<Longrightarrow> reach (exec (registerEntity e x y l zo) g)"
| reach_move: "reach g \<Longrightarrow> reach (exec (moveEntity e x y) g)"
| reach_unregister: "reach g \<Longrightarrow> reach (exec (unregisterEntity e) g)"

text \<open>A 3 by 3 zone \<open>A\<close> with entity 0 registered on the ACTOR layer at (1, 1).\<close>

definition zoneA_with_actor :: grid where
  "zoneA_with_actor =
     exec (registerEntity 0 1 1 ACTOR (Some ''A''))
       (createZone ''A'' 3 3 [] (grid_initial (\<lambda>_. blank)))"

text \<open>
  The occupancy invariant: an entity on a zone's entity list has that zone as its
  \<open>zoneId\<close>, occurs once in the bucket keyed by its zone, layer and cell, in no
  other bucket, and once on the zone's list.
\<close>

definition occupancy_inv :: "grid \<Rightarrow> bool" where
  "occupancy_inv g =
     (\<forall>e z. e \<in> set (entities_of g z) \<longrightarrow>
        zoneId (ents g e) = Some z \<and>
        (\<forall>z' l k. count_list (bucket g z' l k) e =
           (if z' = z \<and> l = layer (ents g e) \<and> k = (gridX (ents g e), gridY (ents g e))
            then 1 else 0)) \<and>
        count_list (entities_of g z) e = 1)"


text \<open>Entity 0 registered a second time at the same cell, and entity 0 unregistered.\<close>

definition registered_twice :: grid where
  "registered_twice = exec (registerEntity 0 1 1 ACTOR (Some ''A'')) zoneA_with_actor"

definition unregistered :: grid where
  "unregistered = exec (unregisterEntity 0) zoneA_with_actor"

text \<open>
  The walkability scenario, built as Game.\_createZone builds a zone: the zone is
  created without a tile matrix, then one tile entity per cell is registered on the
  GROUND layer. Entity \<open>3 * y + x\<close> is the tile of cell \<open>(x, y)\<close>; entity 4, at
  (1, 1), is \<open>water\<close> tagged \<open>water\<close>, the others are \<open>grass\<close> tagged
  \<open>walkable\<close>.
\<close>

definition tile_heap :: "eid \<Rightarrow> entity" where
  "tile_heap e =
     (if e = 4 then blank\<lparr>etype := ''tile'', tags := [''water''], tileComp := Some ''water''\<rparr>
      else blank\<lparr>etype := ''tile'', tags := [''walkable''], tileComp := Some ''grass''\<rparr>)"

definition pond :: grid where
  "pond =
     fold (\<lambda>e. exec (registerEntity e (int (e mod 3)) (int (e div 3)) GROUND (Some ''Z'')))
       [0, 1, 2, 3, 4, 5, 6, 7, 8]
       (createZone ''Z'' 3 3 [] (grid_initial tile_heap))"

text \<open>A 1 by 1 zone whose tile matrix says \<open>water\<close>, with no entity registered.\<close>

definition bare_water :: grid where
  "bare_water = createZone ''W'' 1 1 [[''water'']] (grid_initial (\<lambda>_. blank))"

section \<open>Event bus (src/js/core/event.js)\<close>

text \<open>
  A handler is a JavaScript function; the bus compares handlers by reference
  (\<open>h !== handler\<close>), so a handler is a reference \<open>hid\<close>. What a handler does
  when called is given by \<open>beh\<close>: it gets the event data and the whole bus state
  (the \<open>_handlers\<close> table, and under \<open>user\<close> everything else it can reach), so it
  may subscribe, unsubscribe and publish itself; it either returns or throws, and
  in both cases leaves a state behind.
\<close>

type_synonym hid = nat

record 'u bus =
  handlers :: "string \<rightharpoonup> hid list"
  user :: 'u






definition clear :: "'u bus \<Rightarrow> 'u bus" where
  "clear b = b\<lparr>handlers := Map.empty\<rparr>"

definition getSubscriberCount :: "string \<Rightarrow> 'u bus \<Rightarrow> nat" where
  "getSubscriberCount eventName b =
     (case handlers b eventName of None \<Rightarrow> 0 | Some hs \<Rightarrow> length hs)"








section \<open>State store (js/core/state.js, here src/unnamed/part\_003)\<close>

text \<open>
  The state tree is made of plain objects that the store creates and that callers
  can hand in as values, so objects live in a store of their own: a value is a
  primitive or a reference, and \<open>objs\<close> gives the own properties of every
  reference. Strict equality \<open>!==\<close> is equality of \<open>jsval\<close>: primitives by value,
  objects by reference (numbers are integers here, so there is no NaN). Reading a
  property of a number, string or boolean gives \<open>undefined\<close> (inherited properties
  and the index and length properties of strings are outside the model); writing
  one is ignored: index.html loads the files as classic scripts and none of them
  switches strict mode on.
\<close>

datatype jsval = Undefined | Null | Bool bool | Num int | Str string | Obj nat























section \<open>Helpers.generateId and the EntityManager (src/unnamed/part\_006, part\_000)\<close>





text \<open>
  The EntityManager's private state with what it works on: the grid (which holds
  the entity store and the published events), the id counter of Helpers, and the
  next unused object reference. A component implementation is known by what its
  \<open>init(entity, config)\<close> does to the entity store and the grid; \<open>'c\<close> is the type
  of component configs.
\<close>

record 'c registry =
  grd :: grid
  entities_tbl :: "string \<rightharpoonup> eid"
  componentTypes :: "string \<rightharpoonup> ('c \<Rightarrow> eid \<Rightarrow> grid \<Rightarrow> grid)"
  idCounter :: nat
  nextRef :: eid






text \<open>\<open>destroyEntity(entityOrId)\<close>, for an id (\<open>Inl\<close>) or an entity (\<open>Inr\<close>).\<close>

definition destroyEntity ::
  "string + eid \<Rightarrow> 'c registry \<Rightarrow> js_error + (bool \<times> 'c registry)" where
  "destroyEntity entityOrId w =
     (let i = (case entityOrId of Inl s \<Rightarrow> s | Inr e \<Rightarrow> ident (ents (grd w) e)) in
      case entities_tbl w i of
        None \<Rightarrow> Inr (False, w)
      | Some r \<Rightarrow>
          (case (if truthy (zoneId (ents (grd w) r)) then unregisterEntity r (grd w)
                 else Inr (True, grd w)) of
             Inl err \<Rightarrow> Inl err
           | Inr res \<Rightarrow>
               Inr (True, w\<lparr>grd := (snd res)\<lparr>published := published (snd res) @ [EntityDestroy r]\<rparr>,
                             entities_tbl := (entities_tbl w)(i := None)\<rparr>)))"





section \<open>Interactable component (js/components/interactable.js, in src/unnamed/part\_006)\<close>

text \<open>
  The \<open>interactionData\<close> object with the keys the handlers read; \<open>None\<close> is a
  missing key. \<open>d_state\<close> is the truthiness of \<open>interactionData.state\<close>.
  \<open>d_handler\<close> is the function of a custom interaction, by reference.
\<close>

record interactionData =
  d_text :: "string option"
  d_item :: "string option"
  d_targetZone :: "string option"
  d_targetX :: "int option"
  d_targetY :: "int option"
  d_state :: bool
  d_handler :: "nat option"

text \<open>
  The component object. \<open>pendingTimers\<close> counts the \<open>setTimeout\<close> callbacks that
  will switch the highlight off.
\<close>

record interactable =
  interactionType :: string
  validDirections :: "string list"
  interactionData :: interactionData
  isHighlighted :: bool
  pendingTimers :: nat

text \<open>The data of an \<open>entity:interact\<close> event.\<close>

record request =
  req_actor :: eid
  req_target :: eid
  req_direction :: string

definition publishEvent :: "event \<Rightarrow> 'c registry \<Rightarrow> 'c registry" where
  "publishEvent ev w = w\<lparr>grd := (grd w)\<lparr>published := published (grd w) @ [ev]\<rparr>\<rparr>"

definition handleDialogInteraction ::
  "interactable \<Rightarrow> eid \<Rightarrow> request \<Rightarrow> 'c registry \<Rightarrow> 'c registry" where
  "handleDialogInteraction component entity d w =
     (let dialogText = (if truthy (d_text (interactionData component))
                        then the (d_text (interactionData component))
                        else ''Interacted with '' @ etype (ents (grd w) entity))
      in publishEvent (DialogOpen entity (req_actor d) dialogText) w)"

definition handlePickupInteraction ::
  "interactable \<Rightarrow> eid \<Rightarrow> request \<Rightarrow> 'c registry \<Rightarrow> js_error + 'c registry" where
  "handlePickupInteraction component entity d w =
     (let w1 = publishEvent (InteractionPickup entity (req_actor d)
                  (d_item (interactionData component))) w
      in case unregisterEntity entity (grd w1) of
           Inl err \<Rightarrow> Inl err
         | Inr res \<Rightarrow>
             (case destroyEntity (Inr entity) (w1\<lparr>grd := snd res\<rparr>) of
                Inl err \<Rightarrow> Inl err
              | Inr res2 \<Rightarrow> Inr (snd res2)))"

text \<open>
  \<open>_handleTeleportInteraction\<close>. The actor's \<open>position\<close> is written once more with
  \<open>gridToWorld\<close>, and a player component is reset to stand on the target cell.
\<close>

definition settleActor :: "eid \<Rightarrow> int \<Rightarrow> int \<Rightarrow> grid \<Rightarrow> grid" where
  "settleActor a x y g =
     (let A = (ents g a)\<lparr>position := gridToWorld g x y\<rparr>;
          A1 = (case playerComp A of
                  None \<Rightarrow> A
                | Some pc \<Rightarrow> A\<lparr>playerComp := Some (pc\<lparr>isMoving := False, targetX := x, targetY := y\<rparr>)\<rparr>)
      in g\<lparr>ents := (ents g)(a := A1)\<rparr>)"

definition handleTeleportInteraction ::
  "interactable \<Rightarrow> eid \<Rightarrow> request \<Rightarrow> 'c registry \<Rightarrow> js_error + 'c registry" where
  "handleTeleportInteraction component entity d w =
     (let targetZone = d_targetZone (interactionData component);
          tx = d_targetX (interactionData component);
          ty = d_targetY (interactionData component);
          a = req_actor d
      in if \<not> truthy targetZone \<or> tx = None \<or> ty = None then Inr w
         else if targetZone \<noteq> zoneId (ents (grd w) a) then
           (case unregisterEntity a (grd w) of
              Inl err \<Rightarrow> Inl err
            | Inr res \<Rightarrow>
                (let g2 = snd (setCurrentZone (the targetZone) (snd res));
                     g3 = g2\<lparr>ents := (ents g2)(a := (ents g2 a)\<lparr>zoneId := targetZone\<rparr>)\<rparr>
                 in case registerEntity a (the tx) (the ty) (layer (ents g3 a)) targetZone g3 of
                      Inl err \<Rightarrow> Inl err
                    | Inr res2 \<Rightarrow> Inr (w\<lparr>grd := settleActor a (the tx) (the ty) (snd res2)\<rparr>)))
         else
           (case moveEntity a (the tx) (the ty) (grd w) of
              Inl err \<Rightarrow> Inl err
            | Inr res \<Rightarrow> Inr (w\<lparr>grd := settleActor a (the tx) (the ty) (snd res)\<rparr>)))"

definition handleToggleInteraction ::
  "interactable \<Rightarrow> eid \<Rightarrow> request \<Rightarrow> 'c registry \<Rightarrow> interactable \<times> 'c registry" where
  "handleToggleInteraction component entity d w =
     (let st = \<not> d_state (interactionData component);
          component1 = component\<lparr>interactionData := (interactionData component)\<lparr>d_state := st\<rparr>\<rparr>
      in (component1, publishEvent (InteractionToggle entity (req_actor d) st) w))"

text \<open>
  \<open>handleInteraction\<close>, the closure that \<open>init\<close> subscribes to \<open>entity:interact\<close>,
  for the component \<open>component\<close> of the entity \<open>entity\<close>. \<open>custom\<close> says what the
  function of a custom interaction does. An error thrown inside is the result
  \<open>Inl\<close> (the bus catches it).
\<close>

definition handleInteraction ::
  "(nat \<Rightarrow> eid \<Rightarrow> request \<Rightarrow> interactable \<times> 'c registry \<Rightarrow> interactable \<times> 'c registry) \<Rightarrow>
   interactable \<Rightarrow> eid \<Rightarrow> request \<Rightarrow> 'c registry \<Rightarrow> js_error + (interactable \<times> 'c registry)" where
  "handleInteraction custom component entity d w =
     (if ident (ents (grd w) (req_target d)) \<noteq> ident (ents (grd w) entity) then Inr (component, w)
      else if req_direction d \<notin> set (validDirections component) then Inr (component, w)
      else
        (case (if interactionType component = ''dialog''
               then Inr (component, handleDialogInteraction component entity d w)
               else if interactionType component = ''pickup''
               then map_sum id (Pair component) (handlePickupInteraction component entity d w)
               else if interactionType component = ''teleport''
               then map_sum id (Pair component) (handleTeleportInteraction component entity d w)
               else if interactionType component = ''toggle''
               then Inr (handleToggleInteraction component entity d w)
               else if interactionType component = ''custom''
               then (case d_handler (interactionData component) of
                       None \<Rightarrow> Inr (component, w)
                     | Some h \<Rightarrow> Inr (custom h entity d (component, w)))
               else Inr (component, publishEvent (InteractionBasic entity (req_actor d)) w)) of
           Inl err \<Rightarrow> Inl err
         | Inr cw \<Rightarrow>
             Inr ((fst cw)\<lparr>isHighlighted := True, pendingTimers := Suc (pendingTimers (fst cw))\<rparr>,
                  snd cw)))"

text \<open>
  The cast of the interaction scenarios: entity 0 is the player, entity 1 carries
  the interactable component.
\<close>

definition cast_heap :: "eid \<Rightarrow> entity" where
  "cast_heap e =
     (if e = 0 then
        blank\<lparr>ident := ''entity-1'', etype := ''player'', tags := [''player''],
              playerComp := Some \<lparr>direction = ''up'', canMove = True, isMoving = True,
                                   targetX = 2, targetY = 2\<rparr>\<rparr>
      else if e = 1 then
        blank\<lparr>ident := ''entity-2'', etype := ''door'', tags := [''interactable'']\<rparr>
      else blank)"

text \<open>
  The teleport scenario: zones \<open>A\<close> (5 by 5) and \<open>B\<close> (8 by 8); the player stands in
  \<open>A\<close> at (2, 2) and faces the door at (2, 1), which teleports to \<open>B\<close> at (5, 5).
\<close>

definition two_zones :: grid where
  "two_zones =
     exec (registerEntity 1 2 1 ACTOR (Some ''A''))
       (exec (registerEntity 0 2 2 ACTOR (Some ''A''))
          (createZone ''B'' 8 8 [] (createZone ''A'' 5 5 [] (grid_initial cast_heap))))"

definition stage :: "grid \<Rightarrow> unit registry" where
  "stage g =
     \<lparr>grd = g, entities_tbl = [''entity-1'' \<mapsto> 0, ''entity-2'' \<mapsto> 1],
      componentTypes = Map.empty, idCounter = 2, nextRef = 2\<rparr>"

definition no_data :: interactionData where
  "no_data =
     \<lparr>d_text = None, d_item = None, d_targetZone = None, d_targetX = None, d_targetY = None,
      d_state = False, d_handler = None\<rparr>"


text \<open>A sign that can only be read from below (the actor facing up).\<close>

definition sign :: interactable where
  "sign =
     \<lparr>interactionType = ''dialog'', validDirections = [''up''],
      interactionData = no_data\<lparr>d_text := Some ''Hello''\<rparr>,
      isHighlighted = False, pendingTimers = 0\<rparr>"

definition no_custom ::
  "nat \<Rightarrow> eid \<Rightarrow> request \<Rightarrow> interactable \<times> unit registry \<Rightarrow> interactable \<times> unit registry" where
  "no_custom h e d cw = cw"

text \<open>The player presses the interact key facing up, or facing left, at the door.\<close>

definition face_up :: request where
  "face_up = \<lparr>req_actor = 0, req_target = 1, req_direction = ''up''\<rparr>"

definition face_left :: request where
  "face_left = \<lparr>req_actor = 0, req_target = 1, req_direction = ''left''\<rparr>"



section \<open>Theorems\<close>

subsection \<open>Grid and world coordinates\<close>




subsection \<open>Moving out of bounds\<close>

text \<open>
  C4. When the destination \<open>(newX, newY)\<close> is out of bounds for the entity's zone
  (\<open>isValidPosition\<close> fails for the entity's \<open>zoneId\<close>), \<open>moveEntity\<close> returns
  \<open>false\<close> and the whole state is as it was: every occupancy bucket, the zone
  lists, the entity's grid and world position, and the list of published events.
\<close>

theorem moveEntity_out_of_bounds:
  "\<not> isValidPosition g newX newY (zoneId (ents g e)) \<Longrightarrow>
   moveEntity e newX newY g = Inr (False, g)"
  by (simp add: moveEntity_def)

lemma zoneA_with_actor_facts:
  "zoneId (ents zoneA_with_actor 0) = Some ''A''"
  "gridX (ents zoneA_with_actor 0) = 1"
  "gridY (ents zoneA_with_actor 0) = 1"
  "layer (ents zoneA_with_actor 0) = ACTOR"
  "map_option width (zones zoneA_with_actor ''A'') = Some 3"
  "map_option height (zones zoneA_with_actor ''A'') = Some 3"
  "map_option entities (zones zoneA_with_actor ''A'') = Some [0]"
  "bucket zoneA_with_actor ''A'' ACTOR (1, 1) = [0]"
  by (simp_all add: zoneA_with_actor_def exec_def registerEntity_def createZone_def
      grid_initial_def isValidPosition_def getZone_def truthy_def blank_def bucket_def
      GROUND_def OBJECT_def ACTOR_def UI_def Let_def)

theorem moveEntity_out_of_bounds_witness:
  "\<not> isValidPosition zoneA_with_actor 3 1 (zoneId (ents zoneA_with_actor 0)) \<and>
   moveEntity 0 3 1 zoneA_with_actor = Inr (False, zoneA_with_actor) \<and>
   bucket zoneA_with_actor ''A'' ACTOR (1, 1) = [0]"
proof -
  have oob: "\<not> isValidPosition zoneA_with_actor 3 1 (zoneId (ents zoneA_with_actor 0))"
    using zoneA_with_actor_facts(5,6)
    by (auto simp: isValidPosition_def getZone_def zoneA_with_actor_facts(1) split: option.splits)
  show ?thesis
    using oob moveEntity_out_of_bounds [OF oob] zoneA_with_actor_facts(8) by simp
qed

subsection \<open>Walkability\<close>

lemma getTileAt_Some_valid:
  "getTileAt g x y zo = Some t \<Longrightarrow> isValidPosition g x y zo"
  by (auto simp: getTileAt_def isValidPosition_def Let_def split: option.splits if_splits)

lemma isWalkable_with_tile:
  assumes "cells g z \<noteq> None" "bucket g z GROUND (x, y) \<noteq> []"
  shows "isWalkable g x y req exc (Some z) = Inr (isWalkable_spec g x y req exc z)"
proof (cases "getTileAt g x y (Some z)")
  case None
  then show ?thesis by (simp add: isWalkable_def isWalkable_spec_def)
next
  case (Some tileId)
  then have v: "isValidPosition g x y (Some z)" by (rule getTileAt_Some_valid)
  then obtain Z where Z: "zones g z = Some Z"
    by (auto simp: isValidPosition_def getZone_def split: option.splits)
  obtain cz where cz: "cells g z = Some cz" using assms(1) by auto
  obtain t ts where b: "bucket g z GROUND (x, y) = t # ts"
    using assms(2) by (cases "bucket g z GROUND (x, y)") auto
  show ?thesis
    using Some v Z cz b
    by (auto simp: isWalkable_def isWalkable_spec_def getEntitiesAt_def hasTagIn_def
        Let_def list_ex_iff)
qed

lemma isWalkable_without_tile:
  assumes "cells g z \<noteq> None" "bucket g z GROUND (x, y) = []"
  shows "isWalkable g x y req exc (Some z) =
         Inr (getTileAt g x y (Some z) \<noteq> None \<and>
              \<not> list_ex (\<lambda>e. ''solid'' \<in> set (tags (ents g e))) (bucket g z OBJECT (x, y)))"
proof (cases "getTileAt g x y (Some z)")
  case None
  then show ?thesis by (simp add: isWalkable_def)
next
  case (Some tileId)
  then have v: "isValidPosition g x y (Some z)" by (rule getTileAt_Some_valid)
  then obtain Z where Z: "zones g z = Some Z"
    by (auto simp: isValidPosition_def getZone_def split: option.splits)
  obtain cz where cz: "cells g z = Some cz" using assms(1) by auto
  show ?thesis
    using Some v Z cz assms(2)
    by (auto simp: isWalkable_def getEntitiesAt_def hasTagIn_def Let_def list_ex_iff)
qed

lemma isWalkable_never:
  "\<not> isValidPosition g x y zo \<or> getTileAt g x y zo = None \<Longrightarrow>
   isWalkable g x y req exc zo = Inr False"
  by (auto simp: isWalkable_def)

text \<open>
  C3, as the claim states it, fails: a cell whose tile id is \<open>water\<close> and that has no
  tile entity on the GROUND layer is walkable for \<open>isWalkable\<close>, while the layered
  policy of the claim overrides it to not walkable. The source tests the tile id
  only inside \<open>if (tileEntity && tileEntity.tags)\<close>.
\<close>

theorem isWalkable_bare_water_counterexample:
  "isValidPosition bare_water 0 0 (Some ''W'') \<and>
   getTileAt bare_water 0 0 (Some ''W'') = Some ''water'' \<and>
   isWalkable bare_water 0 0 [] [] (Some ''W'') = Inr True \<and>
   isWalkable_spec bare_water 0 0 [] [] ''W'' = False"
  by code_simp

text \<open>
  C3, amended. In a zone \<open>z\<close> whose cell table exists:
  \<^item> at a cell that has a tile entity on the GROUND layer (the first entity of that
    bucket), \<open>isWalkable\<close> is the layered policy of the claim: default walkable,
    false for tag \<open>water\<close> or tile id \<open>water\<close>/\<open>teleporter\<close>, true again for tag
    \<open>walkable\<close>, false for an excluded tag on the tile entity, false for a solid
    entity on the OBJECT layer;
  \<^item> at a cell without a tile entity, the tile id is not consulted: the cell is
    walkable exactly when it has a tile id and no solid entity on the OBJECT layer;
  \<^item> a cell out of bounds or without a tile id is never walkable;
  \<^item> in the 3 by 3 zone with \<open>water\<close> tagged \<open>water\<close> at (1, 1) and \<open>grass\<close> tagged
    \<open>walkable\<close> elsewhere, \<open>isWalkable(1, 1)\<close> is false and \<open>isWalkable(0, 0)\<close> is
    true.
\<close>

theorem isWalkable_layered_policy:
  "(cells g z \<noteq> None \<and> bucket g z GROUND (x, y) \<noteq> [] \<longrightarrow>
      isWalkable g x y req exc (Some z) = Inr (isWalkable_spec g x y req exc z)) \<and>
   (cells g z \<noteq> None \<and> bucket g z GROUND (x, y) = [] \<longrightarrow>
      isWalkable g x y req exc (Some z) =
        Inr (getTileAt g x y (Some z) \<noteq> None \<and>
             \<not> list_ex (\<lambda>e. ''solid'' \<in> set (tags (ents g e))) (bucket g z OBJECT (x, y)))) \<and>
   (\<not> isValidPosition g x y zo \<or> getTileAt g x y zo = None \<longrightarrow>
      isWalkable g x y req exc zo = Inr False) \<and>
   isWalkable pond 1 1 [] [] (Some ''Z'') = Inr False \<and>
   isWalkable pond 0 0 [] [] (Some ''Z'') = Inr True"
proof -
  have "isWalkable pond 1 1 [] [] (Some ''Z'') = Inr False" by code_simp
  moreover have "isWalkable pond 0 0 [] [] (Some ''Z'') = Inr True" by code_simp
  ultimately show ?thesis
    using isWalkable_with_tile [of g z x y req exc]
      isWalkable_without_tile [of g z x y req exc]
      isWalkable_never [of g x y zo req exc]
    by blast
qed

theorem isWalkable_layered_policy_witness:
  "cells pond ''Z'' \<noteq> None \<and> bucket pond ''Z'' GROUND (1, 1) = [4] \<and>
   isWalkable pond 1 1 [] [''solid''] (Some ''Z'') =
     Inr (isWalkable_spec pond 1 1 [] [''solid''] ''Z'') \<and>
   isWalkable_spec pond 1 1 [] [''solid''] ''Z'' = False \<and>
   cells bare_water ''W'' \<noteq> None \<and> bucket bare_water ''W'' GROUND (0, 0) = [] \<and>
   isWalkable bare_water 0 0 [] [''solid''] (Some ''W'') = Inr True \<and>
   \<not> isValidPosition pond 3 0 (Some ''Z'') \<and>
   isWalkable pond 3 0 [] [''solid''] (Some ''Z'') = Inr False"
proof -
  have a: "cells pond ''Z'' \<noteq> None" by code_simp
  have b: "bucket pond ''Z'' GROUND (1, 1) = [4]" by code_simp
  have c: "isWalkable_spec pond 1 1 [] [''solid''] ''Z'' = False" by code_simp
  have d: "cells bare_water ''W'' \<noteq> None" by code_simp
  have e: "bucket bare_water ''W'' GROUND (0, 0) = []" by code_simp
  have f: "getTileAt bare_water 0 0 (Some ''W'') \<noteq> None" by code_simp
  have g: "bucket bare_water ''W'' OBJECT (0, 0) = []" by code_simp
  have h: "\<not> isValidPosition pond 3 0 (Some ''Z'')" by code_simp
  show ?thesis
    using a b c d e f g h
      isWalkable_layered_policy [of pond "''Z''" 1 1 "[]" "[''solid'']" "Some ''Z''"]
      isWalkable_layered_policy [of bare_water "''W''" 0 0 "[]" "[''solid'']" "Some ''W''"]
      isWalkable_layered_policy [of pond "''Z''" 3 0 "[]" "[''solid'']" "Some ''Z''"]
    by simp
qed

subsection \<open>Occupancy\<close>


lemma count_list_remove1_other: "e' \<noteq> e \<Longrightarrow> count_list (remove1 e xs) e' = count_list xs e'"
  by (induction xs) auto

lemma count_list_remove1_same: "count_list (remove1 e xs) e = count_list xs e - 1"
  by (induction xs) auto

lemma count_list_snoc: "count_list (xs @ [e]) e' = count_list xs e' + (if e = e' then 1 else 0)"
  by (induction xs) auto

lemma count_list_zero: "e \<notin> set xs \<Longrightarrow> count_list xs e = 0"
  by (induction xs) auto

lemma count_list_pos: "e \<in> set xs \<Longrightarrow> 0 < count_list xs e"
  by (induction xs) auto

lemma set_remove1_other: "e' \<noteq> e \<Longrightarrow> e' \<in> set (remove1 e xs) \<longleftrightarrow> e' \<in> set xs"
  by (induction xs) auto

lemma exec_register_shape:
  "exec (registerEntity e x y l zo) g = g \<or>
   (\<exists>z Z cz. zo = Some z \<and> zones g z = Some Z \<and> cells g z = Some cz \<and>
      isValidPosition g x y zo \<and>
      (\<forall>z' l' k. bucket (exec (registerEntity e x y l zo) g) z' l' k =
          (if z' = z \<and> l' = l \<and> k = (x, y) then bucket g z l (x, y) @ [e] else bucket g z' l' k)) \<and>
      (\<forall>e'. e' \<noteq> e \<longrightarrow> ents (exec (registerEntity e x y l zo) g) e' = ents g e') \<and>
      zoneId (ents (exec (registerEntity e x y l zo) g) e) = Some z \<and>
      gridX (ents (exec (registerEntity e x y l zo) g) e) = x \<and>
      gridY (ents (exec (registerEntity e x y l zo) g) e) = y \<and>
      layer (ents (exec (registerEntity e x y l zo) g) e) = l \<and>
      (\<forall>z'. entities_of (exec (registerEntity e x y l zo) g) z' =
          (if z' = z then (if e \<in> set (entities Z) then entities Z else entities Z @ [e])
           else entities_of g z')))"
  by (auto simp: exec_def registerEntity_def Let_def bucket_def entities_of_def
      split: option.splits)

lemma exec_move_shape:
  "exec (moveEntity e x y) g = g \<or>
   (\<exists>z. zoneId (ents g e) = Some z \<and> isValidPosition g x y (Some z) \<and>
      (\<forall>z' l' k. bucket (exec (moveEntity e x y) g) z' l' k =
          (if z' = z \<and> l' = layer (ents g e) then
             (if k = (x, y) then
                (if k = (gridX (ents g e), gridY (ents g e))
                 then remove1 e (bucket g z' l' k) else bucket g z' l' k) @ [e]
              else if k = (gridX (ents g e), gridY (ents g e))
                 then remove1 e (bucket g z' l' k) else bucket g z' l' k)
           else bucket g z' l' k)) \<and>
      (\<forall>e'. e' \<noteq> e \<longrightarrow> ents (exec (moveEntity e x y) g) e' = ents g e') \<and>
      zoneId (ents (exec (moveEntity e x y) g) e) = Some z \<and>
      gridX (ents (exec (moveEntity e x y) g) e) = x \<and>
      gridY (ents (exec (moveEntity e x y) g) e) = y \<and>
      layer (ents (exec (moveEntity e x y) g) e) = layer (ents g e) \<and>
      (\<forall>z'. entities_of (exec (moveEntity e x y) g) z' = entities_of g z'))"
  by (auto simp: exec_def moveEntity_def Let_def bucket_def entities_of_def isValidPosition_def getZone_def
      split: option.splits)

lemma exec_unregister_shape:
  "exec (unregisterEntity e) g = g \<or>
   (\<exists>z. zoneId (ents g e) = Some z \<and> 
      (\<forall>z' l' k. bucket (exec (unregisterEntity e) g) z' l' k =
          (if z' = z \<and> l' = layer (ents g e) \<and> k = (gridX (ents g e), gridY (ents g e))
           then remove1 e (bucket g z' l' k) else bucket g z' l' k)) \<and>
      ents (exec (unregisterEntity e) g) = ents g \<and>
      (\<forall>z'. entities_of (exec (unregisterEntity e) g) z' =
          (if z' = z then remove1 e (entities_of g z') else entities_of g z')))"
  by (auto simp: exec_def unregisterEntity_def Let_def bucket_def entities_of_def getZone_def truthy_def
      split: option.splits)

lemma inv_initial: "occupancy_inv (grid_initial h)"
  by (simp add: occupancy_inv_def entities_of_def grid_initial_def)

lemma inv_init: "occupancy_inv g \<Longrightarrow> occupancy_inv (init c g)"
  by (simp add: occupancy_inv_def entities_of_def init_def bucket_def)

lemma inv_setCurrentZone: "occupancy_inv g \<Longrightarrow> occupancy_inv (snd (setCurrentZone z g))"
  by (auto simp add: occupancy_inv_def entities_of_def setCurrentZone_def bucket_def split: option.splits)

lemma createZone_shape:
  "ents (createZone z w h ts g) = ents g"
  "entities_of (createZone z w h ts g) z' = (if z' = z then [] else entities_of g z')"
  "bucket (createZone z w h ts g) z' l k = (if z' = z then [] else bucket g z' l k)"
  by (auto simp: createZone_def Let_def entities_of_def bucket_def GROUND_def OBJECT_def ACTOR_def UI_def)

lemma inv_createZone:
  assumes "occupancy_inv g"
  shows "occupancy_inv (createZone z w h ts g)"
  unfolding occupancy_inv_def
proof (intro allI impI)
  fix e z' assume "e \<in> set (entities_of (createZone z w h ts g) z')"
  then have ne: "z' \<noteq> z" and m: "e \<in> set (entities_of g z')"
    by (auto simp: createZone_shape split: if_splits)
  from assms m have old: "zoneId (ents g e) = Some z'"
     "\<And>z'' l k. count_list (bucket g z'' l k) e =
           (if z'' = z' \<and> l = layer (ents g e) \<and> k = (gridX (ents g e), gridY (ents g e))
            then 1 else 0)"
     "count_list (entities_of g z') e = 1"
    unfolding occupancy_inv_def by blast+
  show "zoneId (ents (createZone z w h ts g) e) = Some z' \<and>
        (\<forall>z'' l k. count_list (bucket (createZone z w h ts g) z'' l k) e =
           (if z'' = z' \<and> l = layer (ents (createZone z w h ts g) e) \<and>
               k = (gridX (ents (createZone z w h ts g) e), gridY (ents (createZone z w h ts g) e))
            then 1 else 0)) \<and>
        count_list (entities_of (createZone z w h ts g) z') e = 1"
    using ne old by (simp add: createZone_shape)
qed

lemma inv_write:
  assumes "occupancy_inv g" "unplaced g e"
  shows "occupancy_inv (g\<lparr>ents := (ents g)(e := E)\<rparr>)"
proof -
  have b: "\<And>z l k. bucket (g\<lparr>ents := (ents g)(e := E)\<rparr>) z l k = bucket g z l k"
    by (simp add: bucket_def)
  have l: "\<And>z. entities_of (g\<lparr>ents := (ents g)(e := E)\<rparr>) z = entities_of g z"
    by (simp add: entities_of_def)
  show ?thesis
    unfolding occupancy_inv_def b l
  proof (intro allI impI)
    fix e' z assume m: "e' \<in> set (entities_of g z)"
    then have "e' \<noteq> e" using assms(2) by (auto simp: unplaced_def)
    then show "zoneId (ents (g\<lparr>ents := (ents g)(e := E)\<rparr>) e') = Some z \<and>
        (\<forall>z' l k. count_list (bucket g z' l k) e' =
           (if z' = z \<and> l = layer (ents (g\<lparr>ents := (ents g)(e := E)\<rparr>) e') \<and>
               k = (gridX (ents (g\<lparr>ents := (ents g)(e := E)\<rparr>) e'), gridY (ents (g\<lparr>ents := (ents g)(e := E)\<rparr>) e'))
            then 1 else 0)) \<and>
        count_list (entities_of g z) e' = 1"
      using assms(1) m unfolding occupancy_inv_def by simp
  qed
qed

lemma unplaced_bucket: "unplaced g e \<Longrightarrow> e \<notin> set (bucket g z l k)"
  unfolding unplaced_def by blast

lemma unplaced_list: "unplaced g e \<Longrightarrow> e \<notin> set (entities_of g z)"
  unfolding unplaced_def by blast

lemma inv_register:
  assumes inv: "occupancy_inv g" and un: "unplaced g e"
  shows "occupancy_inv (exec (registerEntity e x y l zo) g)"
proof -
  let ?g = "exec (registerEntity e x y l zo) g"
  from exec_register_shape [of e x y l zo g] show ?thesis
  proof (elim disjE exE conjE)
    assume "?g = g" then show ?thesis using inv by simp
  next
    fix z Z cz
    assume zo: "zo = Some z" and Z: "zones g z = Some Z"
      and b: "\<forall>z' l' k. bucket ?g z' l' k =
          (if z' = z \<and> l' = l \<and> k = (x, y) then bucket g z l (x, y) @ [e] else bucket g z' l' k)"
      and oth: "\<forall>e'. e' \<noteq> e \<longrightarrow> ents ?g e' = ents g e'"
      and f: "zoneId (ents ?g e) = Some z" "gridX (ents ?g e) = x" "gridY (ents ?g e) = y"
        "layer (ents ?g e) = l"
      and li: "\<forall>z'. entities_of ?g z' =
          (if z' = z then (if e \<in> set (entities Z) then entities Z else entities Z @ [e])
           else entities_of g z')"
    have eZ: "entities_of g z = entities Z" using Z by (simp add: entities_of_def)
    have "e \<notin> set (entities_of g z)" using un by (rule unplaced_list)
    then have notin: "e \<notin> set (entities Z)" using eZ by simp
    have c0: "\<And>z' l' k. count_list (bucket g z' l' k) e = 0"
      using un by (simp add: unplaced_bucket count_list_zero)
    have l0: "\<And>z'. e \<notin> set (entities_of g z')" using un by (rule unplaced_list)
    show ?thesis
      unfolding occupancy_inv_def
    proof (intro allI impI)
      fix e' z' assume m: "e' \<in> set (entities_of ?g z')"
      show "zoneId (ents ?g e') = Some z' \<and>
        (\<forall>z'' l' k. count_list (bucket ?g z'' l' k) e' =
           (if z'' = z' \<and> l' = layer (ents ?g e') \<and> k = (gridX (ents ?g e'), gridY (ents ?g e'))
            then 1 else 0)) \<and>
        count_list (entities_of ?g z') e' = 1"
      proof (cases "e' = e")
        case True
        have zz: "z' = z" using m l0 True li by (auto split: if_splits)
        show ?thesis
          using True zz f notin c0 eZ l0 [of z]
          by (simp add: b li count_list_snoc count_list_zero)
      next
        case False
        then have m': "e' \<in> set (entities_of g z')"
          using m li eZ by (auto split: if_splits)
        from inv m' have old: "zoneId (ents g e') = Some z'"
          "\<And>z'' l k. count_list (bucket g z'' l k) e' =
           (if z'' = z' \<and> l = layer (ents g e') \<and> k = (gridX (ents g e'), gridY (ents g e'))
            then 1 else 0)"
          "count_list (entities_of g z') e' = 1"
          unfolding occupancy_inv_def by blast+
        have e1: "ents ?g e' = ents g e'" using False oth by simp
        have cnt: "\<And>z'' l' k. count_list (bucket ?g z'' l' k) e' = count_list (bucket g z'' l' k) e'"
          using False by (simp add: b count_list_snoc)
        have cl: "count_list (entities_of ?g z') e' = count_list (entities_of g z') e'"
          using False eZ by (simp add: li count_list_snoc)
        show ?thesis unfolding e1 cnt cl using old by simp
      qed
    qed
  qed
qed


lemma inv_unregister:
  assumes inv: "occupancy_inv g"
  shows "occupancy_inv (exec (unregisterEntity e) g)"
proof -
  let ?g = "exec (unregisterEntity e) g"
  from exec_unregister_shape [of e g] show ?thesis
  proof (elim disjE exE conjE)
    assume "?g = g" then show ?thesis using inv by simp
  next
    fix z
    assume zi: "zoneId (ents g e) = Some z"
      and b: "\<forall>z' l' k. bucket ?g z' l' k =
          (if z' = z \<and> l' = layer (ents g e) \<and> k = (gridX (ents g e), gridY (ents g e))
           then remove1 e (bucket g z' l' k) else bucket g z' l' k)"
      and en: "ents ?g = ents g"
      and li: "\<forall>z'. entities_of ?g z' =
          (if z' = z then remove1 e (entities_of g z') else entities_of g z')"
    show ?thesis
      unfolding occupancy_inv_def
    proof (intro allI impI)
      fix e' z' assume m: "e' \<in> set (entities_of ?g z')"
      have m': "e' \<in> set (entities_of g z')"
        using m li set_remove1_subset [of e "entities_of g z'"] by (auto split: if_splits)
      from inv m' have old: "zoneId (ents g e') = Some z'"
          "\<And>z'' l k. count_list (bucket g z'' l k) e' =
           (if z'' = z' \<and> l = layer (ents g e') \<and> k = (gridX (ents g e'), gridY (ents g e'))
            then 1 else 0)"
          "count_list (entities_of g z') e' = 1"
        unfolding occupancy_inv_def by blast+
      have ne: "e' \<noteq> e"
      proof
        assume eq: "e' = e"
        then have "z' = z" using old(1) zi by simp
        then have "count_list (entities_of ?g z') e = 0"
          using old(3) eq by (simp add: li count_list_remove1_same)
        then show False using m eq count_list_pos [of e "entities_of ?g z'"] by simp
      qed
      have cnt: "\<And>z'' l' k. count_list (bucket ?g z'' l' k) e' = count_list (bucket g z'' l' k) e'"
        using ne by (simp add: b count_list_remove1_other)
      have cl: "count_list (entities_of ?g z') e' = count_list (entities_of g z') e'"
        using ne by (simp add: li count_list_remove1_other)
      show "zoneId (ents ?g e') = Some z' \<and>
        (\<forall>z'' l' k. count_list (bucket ?g z'' l' k) e' =
           (if z'' = z' \<and> l' = layer (ents ?g e') \<and> k = (gridX (ents ?g e'), gridY (ents ?g e'))
            then 1 else 0)) \<and>
        count_list (entities_of ?g z') e' = 1"
        unfolding en cnt cl using old by simp
    qed
  qed
qed

lemma inv_move:
  assumes inv: "occupancy_inv g"
  shows "occupancy_inv (exec (moveEntity e x y) g)"
proof -
  let ?g = "exec (moveEntity e x y) g"
  from exec_move_shape [of e x y g] show ?thesis
  proof (elim disjE exE conjE)
    assume "?g = g" then show ?thesis using inv by simp
  next
    fix z
    assume zi: "zoneId (ents g e) = Some z"
      and b: "\<forall>z' l' k. bucket ?g z' l' k =
          (if z' = z \<and> l' = layer (ents g e) then
             (if k = (x, y) then
                (if k = (gridX (ents g e), gridY (ents g e))
                 then remove1 e (bucket g z' l' k) else bucket g z' l' k) @ [e]
              else if k = (gridX (ents g e), gridY (ents g e))
                 then remove1 e (bucket g z' l' k) else bucket g z' l' k)
           else bucket g z' l' k)"
      and oth: "\<forall>e'. e' \<noteq> e \<longrightarrow> ents ?g e' = ents g e'"
      and f: "zoneId (ents ?g e) = Some z" "gridX (ents ?g e) = x" "gridY (ents ?g e) = y"
        "layer (ents ?g e) = layer (ents g e)"
      and li: "\<forall>z'. entities_of ?g z' = entities_of g z'"
    show ?thesis
      unfolding occupancy_inv_def
    proof (intro allI impI)
      fix e' z' assume m: "e' \<in> set (entities_of ?g z')"
      then have m': "e' \<in> set (entities_of g z')" using li by simp
      from inv m' have old: "zoneId (ents g e') = Some z'"
          "\<And>z'' l k. count_list (bucket g z'' l k) e' =
           (if z'' = z' \<and> l = layer (ents g e') \<and> k = (gridX (ents g e'), gridY (ents g e'))
            then 1 else 0)"
          "count_list (entities_of g z') e' = 1"
        unfolding occupancy_inv_def by blast+
      have cl: "count_list (entities_of ?g z') e' = count_list (entities_of g z') e'"
        using li by simp
      show "zoneId (ents ?g e') = Some z' \<and>
        (\<forall>z'' l' k. count_list (bucket ?g z'' l' k) e' =
           (if z'' = z' \<and> l' = layer (ents ?g e') \<and> k = (gridX (ents ?g e'), gridY (ents ?g e'))
            then 1 else 0)) \<and>
        count_list (entities_of ?g z') e' = 1"
      proof (cases "e' = e")
        case True
        have zz: "z' = z" using old(1) zi True by simp
        have cnt: "count_list (bucket ?g z'' l' k) e =
              (if z'' = z \<and> l' = layer (ents g e) \<and> k = (x, y) then 1 else 0)" for z'' l' k
          using old(2) [of z'' l' k] True zz
          by (auto simp: b count_list_snoc count_list_remove1_same)
        show ?thesis
          using True zz f old(3) by (simp add: cnt li)
      next
        case False
        have e1: "ents ?g e' = ents g e'" using False oth by simp
        have cnt: "\<And>z'' l' k. count_list (bucket ?g z'' l' k) e' = count_list (bucket g z'' l' k) e'"
          using False by (simp add: b count_list_snoc count_list_remove1_other)
        show ?thesis unfolding e1 cnt cl using old by simp
      qed
    qed
  qed
qed

lemma reach_inv: "reach g \<Longrightarrow> occupancy_inv g"
  by (induction rule: reach.induct)
     (simp_all add: inv_initial inv_init inv_createZone inv_setCurrentZone inv_write
        inv_register inv_move inv_unregister)

text \<open>
  C2, as the claim states it, fails in two ways. \<open>registerEntity\<close> pushes the entity
  on the bucket without looking for it there (it does look on the zone's entity
  list): registered twice at one cell, entity 0 is twice in the bucket. And
  \<open>unregisterEntity\<close> leaves \<open>zoneId\<close> as it is: after it, entity 0 still has zone
  \<open>A\<close> assigned and is in no bucket and on no entity list.
\<close>

theorem occupancy_counterexample:
  "zoneId (ents registered_twice 0) = Some ''A'' \<and>
   bucket registered_twice ''A'' ACTOR (1, 1) = [0, 0] \<and>
   entities_of registered_twice ''A'' = [0] \<and>
   zoneId (ents unregistered 0) = Some ''A'' \<and>
   bucket unregistered ''A'' ACTOR (1, 1) = [] \<and>
   entities_of unregistered ''A'' = []"
  by code_simp

text \<open>
  C2, amended. In every state the Grid reaches from its initial state by \<open>init\<close>,
  \<open>createZone\<close>, \<open>setCurrentZone\<close>, \<open>moveEntity\<close>, \<open>unregisterEntity\<close>, and by
  \<open>registerEntity\<close> called for entities that are not on the grid at the time of the
  call, every entity on a zone's entity list has that zone as its \<open>zoneId\<close>, occurs
  exactly once in the bucket keyed by its (zoneId, layer, gridX, gridY), in no other
  bucket, and exactly once on the zone's entity list.
\<close>

theorem reach_occupancy:
  "reach g \<Longrightarrow> e \<in> set (entities_of g z) \<Longrightarrow>
   zoneId (ents g e) = Some z \<and>
   (\<forall>z' l k. count_list (bucket g z' l k) e =
      (if z' = z \<and> l = layer (ents g e) \<and> k = (gridX (ents g e), gridY (ents g e))
       then 1 else 0)) \<and>
   count_list (entities_of g z) e = 1"
  using reach_inv [of g] unfolding occupancy_inv_def by blast

lemma unplaced_fresh_zone:
  "unplaced (createZone z w h ts (grid_initial hp)) e"
  by (simp add: unplaced_def createZone_shape)
     (simp add: bucket_def entities_of_def grid_initial_def)

lemma reach_moved: "reach (exec (moveEntity 0 2 0) zoneA_with_actor)"
  unfolding zoneA_with_actor_def
  by (intro reach_move reach_register reach_createZone reach_initial unplaced_fresh_zone)

theorem reach_occupancy_witness:
  "reach (exec (moveEntity 0 2 0) zoneA_with_actor) \<and>
   0 \<in> set (entities_of (exec (moveEntity 0 2 0) zoneA_with_actor) ''A'') \<and>
   zoneId (ents (exec (moveEntity 0 2 0) zoneA_with_actor) 0) = Some ''A'' \<and>
   (\<forall>z' l k. count_list (bucket (exec (moveEntity 0 2 0) zoneA_with_actor) z' l k) 0 =
      (if z' = ''A'' \<and> l = ACTOR \<and> k = (2, 0) then 1 else 0)) \<and>
   count_list (entities_of (exec (moveEntity 0 2 0) zoneA_with_actor) ''A'') 0 = 1"
proof -
  let ?g = "exec (moveEntity 0 2 0) zoneA_with_actor"
  have m: "0 \<in> set (entities_of ?g ''A'')" by code_simp
  have f: "layer (ents ?g 0) = ACTOR" "gridX (ents ?g 0) = 2" "gridY (ents ?g 0) = 0"
    by code_simp+
  show ?thesis
    using reach_moved m reach_occupancy [OF reach_moved m] unfolding f by simp
qed

subsection \<open>Event bus\<close>









subsection \<open>State store\<close>
















subsection \<open>Generated entity ids\<close>














subsection \<open>Well-formed grids\<close>



















subsection \<open>Interaction\<close>







text \<open>
  C5. When the direction of an interaction request is not in the component's
  \<open>validDirections\<close>, \<open>handleInteraction\<close> returns with the component and the whole
  state as they were: no interaction handler has run, no event has been
  published, no timer has been started and \<open>isHighlighted\<close> is what it was (off,
  if it was off). This holds whether or not the request targets the component's
  own entity.
\<close>

theorem handleInteraction_wrong_direction:
  "req_direction d \<notin> set (validDirections component) \<Longrightarrow>
   handleInteraction custom component entity d w = Inr (component, w)"
  by (simp add: handleInteraction_def)

theorem handleInteraction_wrong_direction_witness:
  "req_direction face_left \<notin> set (validDirections sign) \<and>
   handleInteraction no_custom sign 1 face_left (stage two_zones) = Inr (sign, stage two_zones) \<and>
   isHighlighted sign = False \<and>
   published (grd (stage two_zones)) = [] \<and>
   (case handleInteraction no_custom sign 1 face_up (stage two_zones) of
      Inl err \<Rightarrow> False
    | Inr cw \<Rightarrow> isHighlighted (fst cw) \<and>
        published (grd (snd cw)) = [DialogOpen 1 0 ''Hello''])"
proof -
  have a: "req_direction face_left \<notin> set (validDirections sign)" by code_simp
  have b: "isHighlighted sign = False" by code_simp
  have c: "published (grd (stage two_zones)) = []" by code_simp
  have d: "case handleInteraction no_custom sign 1 face_up (stage two_zones) of
      Inl err \<Rightarrow> False
    | Inr cw \<Rightarrow> isHighlighted (fst cw) \<and>
        published (grd (snd cw)) = [DialogOpen 1 0 ''Hello'']" by code_simp
  show ?thesis
    using a b c d handleInteraction_wrong_direction [OF a, of no_custom 1 "stage two_zones"]
    by simp
qed

lemma handleInteraction_other_target:
  "ident (ents (grd w) (req_target d)) \<noteq> ident (ents (grd w) entity) \<Longrightarrow>
   handleInteraction custom component entity d w = Inr (component, w)"
  by (simp add: handleInteraction_def)








end
